theory Spec2Isabelle
  imports Main
begin

section \<open>Ragno step 1: decomposition of a corpus into units, entities and relationships\<close>

text \<open>
  A shallow embedding of \<^verbatim>\<open>docs/ignore/ragno/decompose_corpus.py\<close>. The four classes
  are records with the fields their constructors assign. Strings are \<open>string\<close>, as the
  annotations of the constructors say. An exception is a value of \<open>py_error\<close> on the left
  of a sum.
\<close>

subsection \<open>The classes\<close>

record TextChunk =
  content :: string
  source :: string

record SemanticUnit =
  "text" :: string
  summary :: string
  source :: string

record Entity =
  name :: string
  is_entry_point :: bool

record Relationship =
  description :: string
  source :: string
  target :: string

text \<open>
  The exceptions the modelled code can raise: \<open>TypeError\<close> when a call does not fit the
  parameters of \<^verbatim>\<open>TextChunk.__init__\<close>, \<open>AttributeError\<close> when an attribute is read
  from an object that does not have it.
\<close>

datatype py_error = TypeError | AttributeError

subsection \<open>Python dictionaries\<close>



text \<open>
  \<^verbatim>\<open>d[k] = v\<close>: the value of an existing key is replaced where the key stands, a new
  key goes to the end.
\<close>

fun dict_setitem :: "'k \<Rightarrow> 'v \<Rightarrow> ('k \<times> 'v) list \<Rightarrow> ('k \<times> 'v) list" where
  "dict_setitem k v [] = [(k, v)]"
| "dict_setitem k v ((k', v') # d) =
     (if k' = k then (k, v) # d else (k', v') # dict_setitem k v d)"

text \<open>\<^verbatim>\<open>d.values()\<close>, as a list: the values in the order of the items.\<close>

definition dict_values :: "('k \<times> 'v) list \<Rightarrow> 'v list" where
  "dict_values d = map snd d"

subsection \<open>Building a chunk\<close>

text \<open>
  \<^verbatim>\<open>TextChunk(**chunk_data)\<close> passes every item of the dictionary as a keyword argument
  of \<^verbatim>\<open>__init__(self, content, source)\<close>. Python raises \<open>TypeError\<close> when a key is not
  the name of a parameter that can still be bound (an unexpected keyword; the key
  \<^verbatim>\<open>self\<close> is bound already), and when \<^verbatim>\<open>content\<close> or \<^verbatim>\<open>source\<close> is left without a
  value. Otherwise the two values are stored in the fields.
\<close>

definition TextChunk_init :: "(string \<times> string) list \<Rightarrow> py_error + TextChunk" where
  "TextChunk_init chunk_data =
     (if \<exists>k \<in> set (map fst chunk_data). k \<noteq> ''content'' \<and> k \<noteq> ''source''
      then Inl TypeError
      else case (map_of chunk_data ''content'', map_of chunk_data ''source'') of
             (Some c, Some s) \<Rightarrow> Inr \<lparr>content = c, source = s\<rparr>
           | _ \<Rightarrow> Inl TypeError)"

subsection \<open>The placeholder extractors\<close>

definition extract_semantic_units :: "TextChunk \<Rightarrow> SemanticUnit list" where
  "extract_semantic_units chunk =
     [\<lparr>text = content chunk, summary = ''Mock summary'', source = TextChunk.source chunk\<rparr>]"

definition extract_entities :: "SemanticUnit \<Rightarrow> Entity list" where
  "extract_entities unit = [\<lparr>name = ''MockEntity'', is_entry_point = True\<rparr>]"

definition extract_relationships :: "SemanticUnit \<Rightarrow> Relationship list" where
  "extract_relationships unit =
     [\<lparr>description = ''MockRel'', source = ''MockEntityA'', target = ''MockEntityB''\<rparr>]"

subsection \<open>The pipeline\<close>

text \<open>
  The three local variables of \<^verbatim>\<open>decompose_corpus\<close> are passed through its loops: the
  list \<open>units\<close>, the dictionary \<open>entities\<close> (keyed by name) and the list
  \<open>relationships\<close>. Each loop is a recursion over the list it iterates.
\<close>

type_synonym locals = "SemanticUnit list \<times> (string \<times> Entity) list \<times> Relationship list"

text \<open>\<^verbatim>\<open>for entity in extract_entities(unit): entities[entity.name] = entity\<close>\<close>

fun entity_loop :: "Entity list \<Rightarrow> (string \<times> Entity) list \<Rightarrow> (string \<times> Entity) list" where
  "entity_loop [] entities = entities"
| "entity_loop (entity # rest) entities =
     entity_loop rest (dict_setitem (name entity) entity entities)"

text \<open>\<^verbatim>\<open>for rel in extract_relationships(unit): relationships.append(rel)\<close>\<close>

fun rel_loop :: "Relationship list \<Rightarrow> Relationship list \<Rightarrow> Relationship list" where
  "rel_loop [] relationships = relationships"
| "rel_loop (rel # rest) relationships = rel_loop rest (relationships @ [rel])"

text \<open>\<^verbatim>\<open>for unit in extract_semantic_units(chunk): ...\<close>\<close>

fun unit_loop :: "SemanticUnit list \<Rightarrow> locals \<Rightarrow> locals" where
  "unit_loop [] st = st"
| "unit_loop (unit # rest) (units, entities, relationships) =
     unit_loop rest
       (units @ [unit],
        entity_loop (extract_entities unit) entities,
        rel_loop (extract_relationships unit) relationships)"

text \<open>
  \<^verbatim>\<open>for chunk_data in text_chunks: ...\<close> The exception of the constructor is not
  caught: it ends the loop and the function.
\<close>

fun chunk_loop :: "(string \<times> string) list list \<Rightarrow> locals \<Rightarrow> py_error + locals" where
  "chunk_loop [] st = Inr st"
| "chunk_loop (chunk_data # rest) st =
     (case TextChunk_init chunk_data of
        Inl e \<Rightarrow> Inl e
      | Inr chunk \<Rightarrow> chunk_loop rest (unit_loop (extract_semantic_units chunk) st))"

text \<open>The dictionary the function returns, with its three keys as fields.\<close>

record Result =
  units :: "SemanticUnit list"
  entities :: "Entity list"
  relationships :: "Relationship list"

definition decompose_corpus :: "(string \<times> string) list list \<Rightarrow> py_error + Result" where
  "decompose_corpus text_chunks =
     (case chunk_loop text_chunks ([], [], []) of
        Inl e \<Rightarrow> Inl e
      | Inr (us, es, rs) \<Rightarrow>
          Inr \<lparr>units = us, entities = dict_values es, relationships = rs\<rparr>)"

text \<open>The example of the \<^verbatim>\<open>__main__\<close> block.\<close>

definition sample_chunks :: "(string \<times> string) list list" where
  "sample_chunks =
     [[(''content'', ''Hinton invented backprop.''), (''source'', ''doc1.txt'')],
      [(''content'', ''LeCun developed convolutional nets.''), (''source'', ''doc2.txt'')]]"

subsection \<open>The unit extractor on a store of objects\<close>

text \<open>
  \<^verbatim>\<open>extract_semantic_units\<close> receives a reference to a chunk object, which its caller
  still holds. To say what the call does to that object, the objects live in a store: a
  list of objects, a reference being a position in it. Creating an object appends it and
  returns its position. Strings are immutable values and are stored in the fields
  themselves.
\<close>

datatype py_object =
  TextChunk_object TextChunk
| SemanticUnit_object SemanticUnit
| Entity_object Entity
| Relationship_object Relationship




section \<open>Properties\<close>

subsection \<open>Building a chunk\<close>

text \<open>
  The constructor call succeeds exactly on the dictionaries whose keys are \<^verbatim>\<open>content\<close>
  and \<^verbatim>\<open>source\<close> and no other, and then stores the two values.
\<close>

lemma TextChunk_init_Inr_iff:
  "TextChunk_init d = Inr c \<longleftrightarrow>
     set (map fst d) = {''content'', ''source''} \<and>
     map_of d ''content'' = Some (content c) \<and>
     map_of d ''source'' = Some (TextChunk.source c)"
proof (cases "\<exists>k \<in> set (map fst d). k \<noteq> ''content'' \<and> k \<noteq> ''source''")
  case True
  then have "TextChunk_init d = Inl TypeError"
    by (simp add: TextChunk_init_def)
  moreover from True have "set (map fst d) \<noteq> {''content'', ''source''}"
    by blast
  ultimately show ?thesis by simp
next
  case False
  then have sub: "set (map fst d) \<subseteq> {''content'', ''source''}"
    by blast
  show ?thesis
  proof (cases "map_of d ''content''")
    case None
    then have "''content'' \<notin> set (map fst d)"
      by (simp add: map_of_eq_None_iff)
    with None False show ?thesis
      by (auto simp: TextChunk_init_def)
  next
    case c: (Some a)
    show ?thesis
    proof (cases "map_of d ''source''")
      case None
      then have "''source'' \<notin> set (map fst d)"
        by (simp add: map_of_eq_None_iff)
      with None c False show ?thesis
        by (auto simp: TextChunk_init_def)
    next
      case s: (Some b)
      from c have "''content'' \<in> set (map fst d)"
        by (metis map_of_eq_None_iff option.distinct(1) set_map)
      moreover from s have "''source'' \<in> set (map fst d)"
        by (metis map_of_eq_None_iff option.distinct(1) set_map)
      ultimately have "set (map fst d) = {''content'', ''source''}"
        using sub by blast
      with c s False show ?thesis
        by (cases c) (auto simp: TextChunk_init_def)
    qed
  qed
qed

lemma TextChunk_init_Inl_iff:
  "TextChunk_init d = Inl e \<longleftrightarrow> e = TypeError \<and> set (map fst d) \<noteq> {''content'', ''source''}"
proof (cases "TextChunk_init d")
  case (Inl a)
  have ne: "set (map fst d) \<noteq> {''content'', ''source''}"
  proof
    assume keys: "set (map fst d) = {''content'', ''source''}"
    then have "''content'' \<in> fst ` set d" and "''source'' \<in> fst ` set d"
      by auto
    then obtain a b where "map_of d ''content'' = Some a" and "map_of d ''source'' = Some b"
      by (metis map_of_eq_None_iff not_Some_eq)
    with keys have "TextChunk_init d = Inr \<lparr>content = a, source = b\<rparr>"
      by (simp add: TextChunk_init_Inr_iff)
    with Inl show False by simp
  qed
  have "a = TypeError" using Inl
    by (auto simp: TextChunk_init_def split: if_splits option.splits)
  with Inl ne show ?thesis by auto
next
  case (Inr c)
  then have "set (map fst d) = {''content'', ''source''}"
    by (simp add: TextChunk_init_Inr_iff)
  with Inr show ?thesis by simp
qed

subsection \<open>The loops\<close>

text \<open>
  Each loop in closed form: the lists grow at the end, the entity dictionary takes the
  extracted entities in extraction order.
\<close>

lemma entity_loop_append:
  "entity_loop (xs @ ys) d = entity_loop ys (entity_loop xs d)"
  by (induction xs arbitrary: d) simp_all

lemma rel_loop_eq: "rel_loop rs acc = acc @ rs"
  by (induction rs arbitrary: acc) simp_all

lemma unit_loop_eq:
  "unit_loop us (U, E, R) =
     (U @ us, entity_loop (concat (map extract_entities us)) E,
      R @ concat (map extract_relationships us))"
  by (induction us arbitrary: U E R) (simp_all add: entity_loop_append rel_loop_eq)

lemma unit_loop_append: "unit_loop (xs @ ys) st = unit_loop ys (unit_loop xs st)"
  by (cases st) (simp add: unit_loop_eq entity_loop_append)

lemma chunk_loop_Inr_iff:
  "chunk_loop cs st = Inr st' \<longleftrightarrow>
     (\<exists>chunks. list_all2 (\<lambda>d c. TextChunk_init d = Inr c) cs chunks \<and>
        st' = unit_loop (concat (map extract_semantic_units chunks)) st)"
proof (induction cs arbitrary: st)
  case Nil
  then show ?case by auto
next
  case (Cons d cs)
  show ?case
  proof (cases "TextChunk_init d")
    case (Inl e)
    then show ?thesis by (auto simp: list_all2_Cons1)
  next
    case (Inr c)
    then show ?thesis
      by (auto simp: Cons.IH list_all2_Cons1 unit_loop_append)
  qed
qed

lemma chunk_loop_Inl_iff:
  "chunk_loop cs st = Inl e \<longleftrightarrow> e = TypeError \<and> (\<exists>d \<in> set cs. TextChunk_init d = Inl TypeError)"
proof (induction cs arbitrary: st)
  case Nil
  then show ?case by simp
next
  case (Cons d cs)
  show ?case
  proof (cases "TextChunk_init d")
    case (Inl a)
    then have "a = TypeError"
      by (simp add: TextChunk_init_Inl_iff)
    with Inl show ?thesis by auto
  next
    case (Inr c)
    then show ?thesis by (simp add: Cons.IH)
  qed
qed

lemma concat_map_single: "concat (map (\<lambda>x. [f x]) xs) = map f xs"
  by (induction xs) simp_all

subsection \<open>The result of a run\<close>

lemma decompose_corpus_Inr_iff:
  "decompose_corpus cs = Inr r \<longleftrightarrow>
     (\<exists>chunks. list_all2 (\<lambda>d c. TextChunk_init d = Inr c) cs chunks \<and>
        r = \<lparr>units = concat (map extract_semantic_units chunks),
             entities = dict_values (entity_loop
               (concat (map extract_entities (concat (map extract_semantic_units chunks)))) []),
             relationships =
               concat (map extract_relationships (concat (map extract_semantic_units chunks)))\<rparr>)"
proof -
  have "decompose_corpus cs = Inr r \<longleftrightarrow>
      (\<exists>us es rs. chunk_loop cs ([], [], []) = Inr (us, es, rs) \<and>
         r = \<lparr>units = us, entities = dict_values es, relationships = rs\<rparr>)"
    by (auto simp: decompose_corpus_def split: sum.splits)
  then show ?thesis
    by (auto simp: chunk_loop_Inr_iff unit_loop_eq)
qed

lemma decompose_corpus_Inl_iff:
  "decompose_corpus cs = Inl e \<longleftrightarrow>
     e = TypeError \<and> (\<exists>d \<in> set cs. set (map fst d) \<noteq> {''content'', ''source''})"
proof -
  have "decompose_corpus cs = Inl e \<longleftrightarrow> chunk_loop cs ([], [], []) = Inl e"
    by (auto simp: decompose_corpus_def split: sum.splits)
  then show ?thesis
    by (simp add: chunk_loop_Inl_iff TextChunk_init_Inl_iff)
qed

lemma decompose_corpus_succeeds_iff:
  "(\<exists>r. decompose_corpus cs = Inr r) \<longleftrightarrow>
     (\<forall>d \<in> set cs. set (map fst d) = {''content'', ''source''})"
proof (cases "decompose_corpus cs")
  case (Inl e)
  then show ?thesis using decompose_corpus_Inl_iff [of cs e] by auto
next
  case (Inr r)
  have "\<not> (\<exists>d \<in> set cs. set (map fst d) \<noteq> {''content'', ''source''})"
    using Inr decompose_corpus_Inl_iff [of cs TypeError] by auto
  with Inr show ?thesis by auto
qed

lemma decompose_corpus_entities:
  assumes "decompose_corpus cs = Inr r"
  shows "entities r = dict_values (entity_loop (concat (map extract_entities (units r))) [])"
  using assms by (auto simp: decompose_corpus_Inr_iff)


lemma decompose_corpus_sample:
  "decompose_corpus sample_chunks =
     Inr \<lparr>units =
            [\<lparr>text = ''Hinton invented backprop.'', summary = ''Mock summary'',
               source = ''doc1.txt''\<rparr>,
             \<lparr>text = ''LeCun developed convolutional nets.'', summary = ''Mock summary'',
               source = ''doc2.txt''\<rparr>],
          entities = [\<lparr>name = ''MockEntity'', is_entry_point = True\<rparr>],
          relationships =
            [\<lparr>description = ''MockRel'', source = ''MockEntityA'', target = ''MockEntityB''\<rparr>,
             \<lparr>description = ''MockRel'', source = ''MockEntityA'', target = ''MockEntityB''\<rparr>]\<rparr>"
  by (simp add: sample_chunks_def decompose_corpus_def TextChunk_init_def
      extract_semantic_units_def extract_entities_def extract_relationships_def
      dict_values_def)

subsection \<open>The entity dictionary\<close>

text \<open>
  The keys of the dictionary after the loop are the names in the order of their first
  insertion, a lookup finds the entity extracted last under the name, and every entity
  is stored under its own name.
\<close>

lemma dict_setitem_keys:
  "map fst (dict_setitem k v d) = (if k \<in> set (map fst d) then map fst d else map fst d @ [k])"
  by (induction d) (auto simp: rev_image_eqI)

lemma map_of_dict_setitem: "map_of (dict_setitem k v d) = (map_of d)(k \<mapsto> v)"
  by (induction d) auto

lemma entity_loop_snoc:
  "entity_loop (es @ [e]) d = dict_setitem (name e) e (entity_loop es d)"
  by (simp add: entity_loop_append)

lemma entity_loop_keys:
  "map fst (entity_loop es []) = rev (remdups (rev (map name es)))"
proof (induction es rule: rev_induct)
  case Nil
  show ?case by simp
next
  case (snoc e es)
  have "set (remdups (rev (map name es))) = name ` set es"
    by simp
  with snoc show ?case
    by (simp add: entity_loop_snoc dict_setitem_keys)
qed

lemma entity_loop_lookup:
  "map_of (entity_loop es []) n = find (\<lambda>e. name e = n) (rev es)"
proof (induction es rule: rev_induct)
  case Nil
  show ?case by simp
next
  case (snoc e es)
  then show ?case
    by (simp add: entity_loop_snoc map_of_dict_setitem)
qed

lemma entity_loop_distinct: "distinct (map fst (entity_loop es []))"
  by (simp add: entity_loop_keys)

lemma entity_loop_key_is_name:
  assumes "(k, e) \<in> set (entity_loop es [])"
  shows "name e = k"
proof -
  from assms have "map_of (entity_loop es []) k = Some e"
    by (simp add: entity_loop_distinct)
  then have "find (\<lambda>x. name x = k) (rev es) = Some e"
    by (simp add: entity_loop_lookup)
  then show ?thesis
    by (auto simp: find_Some_iff)
qed

lemma entity_loop_names:
  "map name (dict_values (entity_loop es [])) = map fst (entity_loop es [])"
  unfolding dict_values_def map_map
  by (rule map_cong) (auto dest: entity_loop_key_is_name)

subsection \<open>Equal dictionaries\<close>



section \<open>The claims\<close>

text \<open>
  Claim C1. When every record of the input has exactly the fields \<^verbatim>\<open>content\<close> and
  \<^verbatim>\<open>source\<close>, \<open>decompose_corpus\<close> returns a result with one unit per record, in input
  order: the text of the \<open>i\<close>-th unit is the content of the \<open>i\<close>-th record, its source is
  the source of that record, and its summary is \<^verbatim>\<open>Mock summary\<close>.
\<close>

theorem one_unit_per_chunk:
  assumes wf: "\<forall>d \<in> set cs. set (map fst d) = {''content'', ''source''}"
  shows "\<exists>r. decompose_corpus cs = Inr r \<and> length (units r) = length cs \<and>
           (\<forall>i < length cs.
              map_of (cs ! i) ''content'' = Some (text (units r ! i)) \<and>
              map_of (cs ! i) ''source'' = Some (SemanticUnit.source (units r ! i)) \<and>
              summary (units r ! i) = ''Mock summary'')"
proof -
  from wf obtain r where r: "decompose_corpus cs = Inr r"
    using decompose_corpus_succeeds_iff [of cs] by blast
  then obtain chunks where
    built: "list_all2 (\<lambda>d c. TextChunk_init d = Inr c) cs chunks" and
    us: "units r = concat (map extract_semantic_units chunks)"
    by (auto simp: decompose_corpus_Inr_iff)
  have len: "length chunks = length cs"
    using built by (simp add: list_all2_lengthD)
  have us': "units r = map (\<lambda>c. \<lparr>text = content c, summary = ''Mock summary'',
                                 source = TextChunk.source c\<rparr>) chunks"
    unfolding us extract_semantic_units_def by (rule concat_map_single)
  have "map_of (cs ! i) ''content'' = Some (text (units r ! i)) \<and>
        map_of (cs ! i) ''source'' = Some (SemanticUnit.source (units r ! i)) \<and>
        summary (units r ! i) = ''Mock summary''" if i: "i < length cs" for i
  proof -
    from built i have "TextChunk_init (cs ! i) = Inr (chunks ! i)"
      by (rule list_all2_nthD)
    then have "map_of (cs ! i) ''content'' = Some (content (chunks ! i))"
      and "map_of (cs ! i) ''source'' = Some (TextChunk.source (chunks ! i))"
      by (simp_all add: TextChunk_init_Inr_iff)
    with i len show ?thesis by (simp add: us')
  qed
  with r len show ?thesis by (simp add: us')
qed

theorem one_unit_per_chunk_witness:
  "\<exists>r. decompose_corpus sample_chunks = Inr r \<and>
       length (units r) = length sample_chunks \<and>
       (\<forall>i < length sample_chunks.
          map_of (sample_chunks ! i) ''content'' = Some (text (units r ! i)) \<and>
          map_of (sample_chunks ! i) ''source'' = Some (SemanticUnit.source (units r ! i)) \<and>
          summary (units r ! i) = ''Mock summary'')"
proof -
  have wf: "\<forall>d \<in> set sample_chunks. set (map fst d) = {''content'', ''source''}"
    by (simp add: sample_chunks_def)
  from one_unit_per_chunk [OF wf] show ?thesis .
qed

text \<open>
  Claim C2. No two entities of a result have the same name.
\<close>

theorem entities_unique_by_name:
  assumes "decompose_corpus cs = Inr r"
  shows "distinct (map name (entities r))"
  using assms
  by (simp add: decompose_corpus_entities entity_loop_names entity_loop_distinct)

theorem entities_unique_by_name_witness:
  "distinct (map name [\<lparr>name = ''MockEntity'', is_entry_point = True\<rparr>])"
proof -
  from entities_unique_by_name [OF decompose_corpus_sample] show ?thesis
    by simp
qed

text \<open>
  Claim C3. On the two records of the \<^verbatim>\<open>__main__\<close> example, the texts of the units are
  the two contents, the only entity name is \<^verbatim>\<open>MockEntity\<close>, and the descriptions of the
  relationships are \<^verbatim>\<open>MockRel\<close> twice.
\<close>

theorem sample_run:
  "\<exists>r. decompose_corpus sample_chunks = Inr r \<and>
       map text (units r) =
         [''Hinton invented backprop.'', ''LeCun developed convolutional nets.''] \<and>
       map name (entities r) = [''MockEntity''] \<and>
       map description (relationships r) = [''MockRel'', ''MockRel'']"
  by (simp add: decompose_corpus_sample)



text \<open>
  Claim C5. When a record of the input lacks \<^verbatim>\<open>content\<close> or \<^verbatim>\<open>source\<close>, the run ends
  with the \<open>TypeError\<close> of the constructor; no result is returned, whatever records
  came before.
\<close>

theorem missing_field_raises:
  assumes "d \<in> set cs"
    and "''content'' \<notin> set (map fst d) \<or> ''source'' \<notin> set (map fst d)"
  shows "decompose_corpus cs = Inl TypeError"
proof -
  from assms(2) have "set (map fst d) \<noteq> {''content'', ''source''}"
    by blast
  with assms(1) show ?thesis
    unfolding decompose_corpus_Inl_iff by blast
qed

theorem missing_field_raises_witness:
  "decompose_corpus
     [[(''content'', ''Hinton invented backprop.''), (''source'', ''doc1.txt'')],
      [(''content'', ''LeCun developed convolutional nets.'')]] = Inl TypeError"
proof -
  let ?d = "[(''content'', ''LeCun developed convolutional nets.'')]"
  let ?cs = "[[(''content'', ''Hinton invented backprop.''), (''source'', ''doc1.txt'')], ?d]"
  have member: "?d \<in> set ?cs"
    by simp
  have lacks: "''content'' \<notin> set (map fst ?d) \<or> ''source'' \<notin> set (map fst ?d)"
    by simp
  from missing_field_raises [OF member lacks] show ?thesis .
qed







text \<open>
  Claim C9. On the empty input the run succeeds, and the units, the entities and the
  relationships of the result are empty.
\<close>

theorem empty_input:
  "decompose_corpus [] = Inr \<lparr>units = [], entities = [], relationships = []\<rparr>"
  by (simp add: decompose_corpus_def dict_values_def)

text \<open>
  Claim C10. A record with a field other than \<^verbatim>\<open>content\<close> and \<^verbatim>\<open>source\<close> ends the run
  with the \<open>TypeError\<close> of the constructor as well: a run returns a result exactly when
  the fields of every record are these two and no other.
\<close>

theorem extra_field_raises:
  "(d \<in> set cs \<and> k \<in> set (map fst d) \<and> k \<noteq> ''content'' \<and> k \<noteq> ''source''
      \<longrightarrow> decompose_corpus cs = Inl TypeError) \<and>
   ((\<exists>r. decompose_corpus cs = Inr r) \<longleftrightarrow>
      (\<forall>d' \<in> set cs. set (map fst d') = {''content'', ''source''}))"
proof -
  have "decompose_corpus cs = Inl TypeError"
    if "d \<in> set cs" and "k \<in> set (map fst d)" and "k \<noteq> ''content''" and "k \<noteq> ''source''"
  proof -
    from that(2-4) have "set (map fst d) \<noteq> {''content'', ''source''}"
      by blast
    with that(1) show ?thesis
      unfolding decompose_corpus_Inl_iff by blast
  qed
  then show ?thesis
    using decompose_corpus_succeeds_iff [of cs] by blast
qed

theorem extra_field_raises_witness:
  "decompose_corpus
     [[(''content'', ''Hinton invented backprop.''), (''source'', ''doc1.txt''),
       (''page'', ''7'')]] = Inl TypeError"
proof -
  let ?d = "[(''content'', ''Hinton invented backprop.''), (''source'', ''doc1.txt''),
             (''page'', ''7'')]"
  have extra: "?d \<in> set [?d] \<and> ''page'' \<in> set (map fst ?d) \<and>
               ''page'' \<noteq> ''content'' \<and> ''page'' \<noteq> ''source''"
    by simp
  from extra_field_raises [of ?d "[?d]" "''page''"] extra show ?thesis
    by blast
qed

end
